theory Spec2Isabelle
  imports Complex_Main "HOL-Library.Sublist" "HOL-Library.AList"
begin

section \<open>The CTU dataset metadata harvester of \<^verbatim>\<open>lim/ctu13.py\<close>\<close>

text \<open>
  A shallow embedding of the class \<^verbatim>\<open>CTU_Dataset\<close>: its constructor, the scenario
  discovery, the scenario page parser, the cache functions and the query function.
  Python strings are \<^typ>\<open>string\<close>, a character being a Unicode code point below 256:
  the strings of the model are the Python strings over these code points, and
  \<^verbatim>\<open>str.upper\<close>, \<^verbatim>\<open>str.lower\<close>, \<^verbatim>\<open>str.strip\<close> and \<^verbatim>\<open>str.splitlines\<close> are Python's on
  them. The libraries the class calls (the HTML parser, the HTTP clients, the JSON
  codec, the file system and the clock) are not part of the repository: the HTML parser,
  the network and the JSON codec are parameters of the model, the file system is a map
  from paths to files, and the clock reading is an argument. An exception is a value:
  a function that can raise returns a sum whose left side is the exception, next to the
  state it has reached when the source has changed state before raising.
\<close>

subsection \<open>Python values, dictionaries and exceptions\<close>

datatype error =
    RuntimeError string
  | KeyError string
  | ValueError
  | IndexError
  | TypeError
  | AttributeError
  | TimeoutError
  | ClientError
  | JSONDecodeError
  | FileNotFoundError

text \<open>The values a scenario dictionary holds: strings, the flag \<^verbatim>\<open>_SUCCESS\<close>, and \<^verbatim>\<open>None\<close>.\<close>

datatype pyval = PStr string | PBool bool | PNone

text \<open>
  A \<^verbatim>\<open>dict\<close> keeps its keys in insertion order: an association list, where
  \<^const>\<open>AList.update\<close> overwrites the value of a key in place and appends a new key.
\<close>

type_synonym attributes = "(string \<times> pyval) list"
type_synonym store = "(string \<times> attributes) list"

definition dict_has :: "(string \<times> 'v) list \<Rightarrow> string \<Rightarrow> bool" where
  "dict_has d k = (map_of d k \<noteq> None)"

definition getitem :: "(string \<times> 'v) list \<Rightarrow> string \<Rightarrow> error + 'v" where
  "getitem d k = (case map_of d k of None \<Rightarrow> Inl (KeyError k) | Some v \<Rightarrow> Inr v)"

definition dict_get :: "attributes \<Rightarrow> string \<Rightarrow> pyval" where
  "dict_get d k = (case map_of d k of None \<Rightarrow> PNone | Some v \<Rightarrow> v)"

definition truthy :: "pyval \<Rightarrow> bool" where
  "truthy v = (case v of PStr s \<Rightarrow> s \<noteq> [] | PBool b \<Rightarrow> b | PNone \<Rightarrow> False)"

subsection \<open>String methods\<close>

definition startswith :: "string \<Rightarrow> string \<Rightarrow> bool" where
  "startswith s p = prefix p s"

definition endswith :: "string \<Rightarrow> string \<Rightarrow> bool" where
  "endswith s p = prefix (rev p) (rev s)"

text \<open>\<^verbatim>\<open>sub in s\<close>.\<close>

fun str_in :: "string \<Rightarrow> string \<Rightarrow> bool" where
  "str_in sub [] = (sub = [])"
| "str_in sub (c # cs) = (prefix sub (c # cs) \<or> str_in sub cs)"

text \<open>\<^verbatim>\<open>s.find(sub)\<close>: the first index where \<^verbatim>\<open>sub\<close> occurs, or -1.\<close>

fun find_from :: "int \<Rightarrow> string \<Rightarrow> string \<Rightarrow> int" where
  "find_from i sub [] = (if sub = [] then i else - 1)"
| "find_from i sub (c # cs) = (if prefix sub (c # cs) then i else find_from (i + 1) sub cs)"

definition find :: "string \<Rightarrow> string \<Rightarrow> int" where
  "find s sub = find_from 0 sub s"

text \<open>
  \<^verbatim>\<open>s.upper()\<close>, character by character. The letters \<^verbatim>\<open>a\<close> to \<^verbatim>\<open>z\<close> and the letters
  0xE0 to 0xFE (0xF7, the division sign, is no letter) move down by 32; the sharp s 0xDF
  becomes \<^verbatim>\<open>SS\<close>; the micro sign 0xB5 and the y with diaeresis 0xFF become the code
  points 0x39C and 0x178, which no string of the model holds: the result is then \<open>None\<close>,
  a string that differs from every string of the model.
\<close>

definition upper_char :: "char \<Rightarrow> string option" where
  "upper_char c =
     (let n = (of_char c :: nat) in
      if 97 \<le> n \<and> n \<le> 122 then Some [char_of (n - 32)]
      else if n = 181 then None
      else if n = 223 then Some ''SS''
      else if n = 247 then Some [c]
      else if n = 255 then None
      else if 224 \<le> n then Some [char_of (n - 32)]
      else Some [c])"

fun upper :: "string \<Rightarrow> string option" where
  "upper [] = Some []"
| "upper (c # cs) =
     (case upper_char c of
        None \<Rightarrow> None
      | Some u \<Rightarrow> (case upper cs of None \<Rightarrow> None | Some us \<Rightarrow> Some (u @ us)))"

text \<open>
  \<^verbatim>\<open>s.lower()\<close>: the letters \<^verbatim>\<open>A\<close> to \<^verbatim>\<open>Z\<close> and the letters 0xC0 to 0xDE (0xD7, the
  multiplication sign, is no letter) move up by 32.
\<close>

definition lower_char :: "char \<Rightarrow> char" where
  "lower_char c =
     (let n = (of_char c :: nat) in
      if 65 \<le> n \<and> n \<le> 90 then char_of (n + 32)
      else if n = 215 then c
      else if 192 \<le> n \<and> n \<le> 222 then char_of (n + 32)
      else c)"

definition lower :: "string \<Rightarrow> string" where
  "lower s = map lower_char s"

text \<open>\<^verbatim>\<open>s.replace(' ', '_')\<close>.\<close>

definition replace_space :: "string \<Rightarrow> string" where
  "replace_space s = map (\<lambda>c. if c = CHR '' '' then CHR ''_'' else c) s"

text \<open>
  \<^verbatim>\<open>s.strip()\<close> removes the white space at both ends: the space, the controls 0x09 to
  0x0D and 0x1C to 0x1F, the next line 0x85 and the no-break space 0xA0.
\<close>

definition whitespace :: "char \<Rightarrow> bool" where
  "whitespace c = (c \<in> set [CHR '' '', CHR 0x09, CHR 0x0A, CHR 0x0B, CHR 0x0C, CHR 0x0D,
                              CHR 0x1C, CHR 0x1D, CHR 0x1E, CHR 0x1F, CHR 0x85, CHR 0xA0])"

definition strip :: "string \<Rightarrow> string" where
  "strip s = rev (dropWhile whitespace (rev (dropWhile whitespace s)))"

text \<open>\<^verbatim>\<open>s.split(sep)\<close> for a separator of one character: one more part than separators.\<close>

fun str_split :: "char \<Rightarrow> string \<Rightarrow> string list" where
  "str_split sep [] = [[]]"
| "str_split sep (c # cs) =
     (if c = sep then [] # str_split sep cs
      else (case str_split sep cs of [] \<Rightarrow> [[c]] | part # parts \<Rightarrow> (c # part) # parts))"

text \<open>
  \<^verbatim>\<open>s.splitlines()\<close>: a line ends at a line feed, a carriage return (with the line feed
  that follows it, if any), a vertical tab, a form feed, one of the separators 0x1C to
  0x1E or the next line 0x85; the text after the last line end is a line only if it is
  not empty.
\<close>

definition linebreak :: "char \<Rightarrow> bool" where
  "linebreak c = (c \<in> set [CHR 0x0A, CHR 0x0B, CHR 0x0C, CHR 0x1C, CHR 0x1D, CHR 0x1E, CHR 0x85])"

fun lines_from :: "string \<Rightarrow> string \<Rightarrow> string list" where
  "lines_from cur [] = (if cur = [] then [] else [cur])"
| "lines_from cur (c # cs) =
     (if c = CHR 0x0D then
        (case cs of
           [] \<Rightarrow> [cur]
         | d # ds \<Rightarrow> if d = CHR 0x0A then cur # lines_from [] ds else cur # lines_from [] cs)
      else if linebreak c then cur # lines_from [] cs
      else lines_from (cur @ [c]) cs)"

definition splitlines :: "string \<Rightarrow> string list" where
  "splitlines s = lines_from [] s"

text \<open>\<^verbatim>\<open>xs.index(x)\<close>: the first position of \<^verbatim>\<open>x\<close>, \<^verbatim>\<open>ValueError\<close> when there is none.\<close>

fun index_from :: "nat \<Rightarrow> 'a list \<Rightarrow> 'a \<Rightarrow> error + nat" where
  "index_from i [] x = Inl ValueError"
| "index_from i (y # ys) x = (if y = x then Inr i else index_from (Suc i) ys x)"

definition index :: "'a list \<Rightarrow> 'a \<Rightarrow> error + nat" where
  "index xs x = index_from 0 xs x"

text \<open>
  \<^verbatim>\<open>os.path.splitext(p)\<close>: the extension starts at the last dot of \<^verbatim>\<open>p\<close>, if that dot
  comes after the last slash and some character between the slash and the dot is not a dot.
\<close>

fun rfind_char :: "char \<Rightarrow> string \<Rightarrow> nat option" where
  "rfind_char c [] = None"
| "rfind_char c (x # xs) =
     (case rfind_char c xs of
        Some i \<Rightarrow> Some (Suc i)
      | None \<Rightarrow> if x = c then Some 0 else None)"

definition splitext :: "string \<Rightarrow> string \<times> string" where
  "splitext p =
     (case rfind_char CHR ''.'' p of
        None \<Rightarrow> (p, [])
      | Some dotIndex \<Rightarrow>
          (let filenameIndex = (case rfind_char CHR ''/'' p of None \<Rightarrow> 0 | Some i \<Rightarrow> Suc i)
           in if filenameIndex \<le> dotIndex
                 \<and> list_ex (\<lambda>c. c \<noteq> CHR ''.'')
                       (take (dotIndex - filenameIndex) (drop filenameIndex p))
              then (take dotIndex p, drop dotIndex p)
              else (p, [])))"

subsection \<open>Module constants\<close>

definition ASYNC_TIMEOUT :: real where
  "ASYNC_TIMEOUT = 10"

definition SEMAPHORE_LIMIT :: int where
  "SEMAPHORE_LIMIT = 10"

definition DATASETS_URLS :: "(string \<times> string) list" where
  "DATASETS_URLS =
     [(''ctu13'', ''https://www.stratosphereips.org/datasets-ctu13''),
      (''mixed'', ''https://www.stratosphereips.org/datasets-mixed''),
      (''normal'', ''https://www.stratosphereips.org/datasets-normal''),
      (''malware'', ''https://www.stratosphereips.org/datasets-malware'')]"

definition GROUPS :: "string list" where
  "GROUPS = map fst DATASETS_URLS"

definition NETFLOW_DATA_DIR :: string where
  "NETFLOW_DATA_DIR = ''detailed-bidirectional-flow-labels/''"

definition CACHE_FILE :: string where
  "CACHE_FILE = ''ctu-cache.json''"

definition CACHE_TIMEOUT :: real where
  "CACHE_TIMEOUT = 60 * 60 * 24 * 7"

definition COLUMNS :: "string list" where
  "COLUMNS = [''SCENARIO'', ''GROUP'', ''SCENARIO_URL'', ''PROBABLE_NAME'', ''ZIP'', ''MD5'',
              ''SHA1'', ''SHA256'', ''LABELED'', ''BINETFLOW'', ''PCAP'']"

subsection \<open>The object and its constructor\<close>

record ctu_dataset =
  groups :: "string list"
  columns :: "string list"
  cache_timeout :: real
  semaphore_limit :: int
  ignore_cache :: bool
  cache_file :: string
  debug :: bool
  scenarios :: store

text \<open>\<^verbatim>\<open>",".join(xs)\<close>.\<close>

fun join_comma :: "string list \<Rightarrow> string" where
  "join_comma [] = []"
| "join_comma [x] = x"
| "join_comma (x # y # ys) = x @ '','' @ join_comma (y # ys)"

definition unknown_group :: "string \<Rightarrow> error" where
  \<open>unknown_group g =
     RuntimeError (''Dataset group "'' @ g @ ''" '' @ ''not found in ['' @ join_comma GROUPS @ '']'')\<close>

text \<open>The loop over \<^verbatim>\<open>groups\<close> that opens \<^verbatim>\<open>__init__\<close>: it raises at the first unknown name.\<close>

fun check_groups :: "string list \<Rightarrow> error option" where
  "check_groups [] = None"
| "check_groups (g # gs) = (if g \<notin> set GROUPS then Some (unknown_group g) else check_groups gs)"

text \<open>
  \<^verbatim>\<open>CTU_Dataset.__init__\<close>. \<^verbatim>\<open>asyncio.Semaphore\<close> refuses a negative initial value with
  \<^verbatim>\<open>ValueError\<close>.
\<close>

definition init ::
  "string list \<Rightarrow> string list \<Rightarrow> real \<Rightarrow> int \<Rightarrow> bool \<Rightarrow> string \<Rightarrow> bool \<Rightarrow> error + ctu_dataset" where
  "init gs cols timeout limit ignore file dbg =
     (case check_groups gs of
        Some e \<Rightarrow> Inl e
      | None \<Rightarrow>
          if limit < 0 then Inl ValueError
          else Inr \<lparr>groups = (if ''all'' \<in> set gs then GROUPS else gs),
                    columns = cols,
                    cache_timeout = timeout,
                    semaphore_limit = limit,
                    ignore_cache = ignore,
                    cache_file = file,
                    debug = dbg,
                    scenarios = []\<rparr>)"

text \<open>The constructor with every default except \<^verbatim>\<open>groups\<close>.\<close>

definition init_default :: "string list \<Rightarrow> error + ctu_dataset" where
  "init_default gs = init gs COLUMNS CACHE_TIMEOUT SEMAPHORE_LIMIT False CACHE_FILE False"

subsection \<open>HTML pages\<close>

text \<open>
  \<^verbatim>\<open>BeautifulSoup(page, 'html.parser')\<close> is the library's: the model takes the parser as a
  parameter that gives, for a page, the visible text (\<^verbatim>\<open>soup.text\<close>) and the anchor
  elements in document order (\<^verbatim>\<open>soup.findAll('a')\<close>), each with its attributes, or the
  exception the library raises. A page is \<^verbatim>\<open>None\<close> or a string.
\<close>

type_synonym tag = "(string \<times> string) list"

record soup =
  soup_text :: string
  anchors :: "tag list"

type_synonym html_parser = "string option \<Rightarrow> error + soup"

text \<open>
  The parser restricted to pages without markup: the text of such a page is the page and
  it has no anchor. It gives the concrete pages of the examples below their meaning.
\<close>

definition plain_text_parser :: html_parser where
  "plain_text_parser page =
     (case page of None \<Rightarrow> Inl TypeError | Some s \<Rightarrow> Inr \<lparr>soup_text = s, anchors = []\<rparr>)"

subsection \<open>Scenario discovery\<close>

text \<open>\<^verbatim>\<open>try: href = item['href'] except KeyError: href = ''\<close>.\<close>

definition href_or_empty :: "tag \<Rightarrow> string" where
  "href_or_empty item = (case getitem item ''href'' of Inl e \<Rightarrow> [] | Inr h \<Rightarrow> h)"

text \<open>The loop of \<^verbatim>\<open>get_scenarios\<close> over the anchors, with the list it appends to.\<close>

fun scan_scenarios :: "tag list \<Rightarrow> string list \<Rightarrow> string list" where
  "scan_scenarios [] found = found"
| "scan_scenarios (item # items) found =
     (let href = href_or_empty item in
      if startswith href ''?'' then scan_scenarios items found
      else if str_in ''/publicDatasets/'' href \<and> endswith href ''/''
           then scan_scenarios items (found @ [href])
           else scan_scenarios items found)"

text \<open>
  \<^verbatim>\<open>get_scenarios\<close>: \<^verbatim>\<open>requests.get(url).text\<close> is the parameter \<open>http_get\<close>, which gives
  the body of the landing page or the exception of the transport.
\<close>

definition get_scenarios ::
  "html_parser \<Rightarrow> (string \<Rightarrow> error + string) \<Rightarrow> string \<Rightarrow> string \<Rightarrow> error + string list" where
  "get_scenarios parser http_get grp url =
     (case http_get url of
        Inl e \<Rightarrow> Inl e
      | Inr body \<Rightarrow>
          (case parser (Some body) of
             Inl e \<Rightarrow> Inl e
           | Inr page \<Rightarrow> Inr (scan_scenarios (anchors page) [])))"

text \<open>
  What the specification says of the discovery, in its words: of the anchors that have an
  \<^verbatim>\<open>href\<close> attribute and whose \<^verbatim>\<open>href\<close> does not begin with a question mark, the
  \<^verbatim>\<open>href\<close>s that contain the marker and end in a slash, in document order.
\<close>

definition discovered_spec :: "tag list \<Rightarrow> string list" where
  "discovered_spec items =
     [h. item \<leftarrow> items, h \<leftarrow> (case map_of item ''href'' of None \<Rightarrow> [] | Some h \<Rightarrow> [h]),
         \<not> prefix ''?'' h, sublist ''/publicDatasets/'' h \<and> suffix ''/'' h]"

subsection \<open>The query\<close>

text \<open>
  The filters of \<^verbatim>\<open>get_metadata\<close>, one per \<^verbatim>\<open>continue\<close> of the loop body: each gives
  whether the record is skipped, or the exception its test raises.
\<close>

definition failed :: "attributes \<Rightarrow> bool" where
  "failed a = (dict_has a ''_SUCCESS'' \<and> \<not> truthy (dict_get a ''_SUCCESS''))"

text \<open>\<^verbatim>\<open>'GROUP' in attributes and attributes['GROUP'] not in groups\<close>; \<^verbatim>\<open>groups\<close> defaults to
  \<^verbatim>\<open>None\<close>, where the membership test raises \<^verbatim>\<open>TypeError\<close>.\<close>

definition other_group :: "string list option \<Rightarrow> attributes \<Rightarrow> error + bool" where
  "other_group gs a =
     (case map_of a ''GROUP'' of
        None \<Rightarrow> Inr False
      | Some g \<Rightarrow>
          (case gs of
             None \<Rightarrow> Inl TypeError
           | Some wanted \<Rightarrow> Inr (g \<notin> PStr ` set wanted)))"

definition other_name :: "string option \<Rightarrow> attributes \<Rightarrow> error + bool" where
  "other_name name_includes a =
     (case name_includes of
        None \<Rightarrow> Inr False
      | Some n \<Rightarrow>
          (case map_of a ''PROBABLE_NAME'' of
             None \<Rightarrow> Inr True
           | Some (PStr probable_name) \<Rightarrow> Inr (find (lower probable_name) (lower n) = - 1)
           | Some _ \<Rightarrow> Inl AttributeError))"

text \<open>
  \<^verbatim>\<open>not (has_hash == attributes['MD5'] or has_hash == attributes['SHA1'] or
  has_hash == attributes['SHA256'])\<close>, the subscripts read from left to right until one
  comparison holds.
\<close>

definition other_hash :: "string option \<Rightarrow> attributes \<Rightarrow> error + bool" where
  "other_hash has_hash a =
     (case has_hash of
        None \<Rightarrow> Inr False
      | Some h \<Rightarrow>
          (case getitem a ''MD5'' of
             Inl e \<Rightarrow> Inl e
           | Inr md5 \<Rightarrow>
               if PStr h = md5 then Inr False
               else (case getitem a ''SHA1'' of
                       Inl e \<Rightarrow> Inl e
                     | Inr sha1 \<Rightarrow>
                         if PStr h = sha1 then Inr False
                         else (case getitem a ''SHA256'' of
                                 Inl e \<Rightarrow> Inl e
                               | Inr sha256 \<Rightarrow> Inr (PStr h \<noteq> sha256)))))"

text \<open>\<^verbatim>\<open>for c in self.columns: if c not in row: row[c] = attributes.get(c)\<close>.\<close>

fun fill_row :: "string list \<Rightarrow> attributes \<Rightarrow> attributes \<Rightarrow> attributes" where
  "fill_row [] a row = row"
| "fill_row (c # cs) a row =
     (if dict_has row c then fill_row cs a row
      else fill_row cs a (AList.update c (dict_get a c) row))"

text \<open>
  The body of the loop of \<^verbatim>\<open>get_metadata\<close> for one item of \<^verbatim>\<open>self.scenarios\<close>:
  \<open>None\<close> when the record is skipped, the row it appends otherwise.
\<close>

definition metadata_row ::
  "string list \<Rightarrow> string list option \<Rightarrow> string option \<Rightarrow> string option \<Rightarrow>
   string \<Rightarrow> attributes \<Rightarrow> error + pyval list option" where
  "metadata_row cols gs name_includes has_hash scenario a =
     (if failed a then Inr None
      else case other_group gs a of
        Inl e \<Rightarrow> Inl e
      | Inr True \<Rightarrow> Inr None
      | Inr False \<Rightarrow>
          (case other_name name_includes a of
             Inl e \<Rightarrow> Inl e
           | Inr True \<Rightarrow> Inr None
           | Inr False \<Rightarrow>
               (case getitem a ''URL'' of
                  Inl e \<Rightarrow> Inl e
                | Inr url \<Rightarrow>
                    (let row = AList.update ''SCENARIO_URL'' url
                                 (AList.update ''SCENARIO'' (PStr scenario) [])
                     in case other_hash has_hash a of
                          Inl e \<Rightarrow> Inl e
                        | Inr True \<Rightarrow> Inr None
                        | Inr False \<Rightarrow> Inr (Some (map (dict_get (fill_row cols a row)) cols))))))"

fun metadata_loop ::
  "string list \<Rightarrow> string list option \<Rightarrow> string option \<Rightarrow> string option \<Rightarrow>
   store \<Rightarrow> pyval list list \<Rightarrow> error + pyval list list" where
  "metadata_loop cols gs name_includes has_hash [] data = Inr data"
| "metadata_loop cols gs name_includes has_hash ((scenario, a) # items) data =
     (case metadata_row cols gs name_includes has_hash scenario a of
        Inl e \<Rightarrow> Inl e
      | Inr None \<Rightarrow> metadata_loop cols gs name_includes has_hash items data
      | Inr (Some row) \<Rightarrow> metadata_loop cols gs name_includes has_hash items (data @ [row]))"

definition get_metadata ::
  "ctu_dataset \<Rightarrow> string list option \<Rightarrow> string option \<Rightarrow> string option \<Rightarrow>
   error + pyval list list" where
  "get_metadata self gs name_includes has_hash =
     metadata_loop (columns self) gs name_includes has_hash (scenarios self) []"

text \<open>
  The entry of a row for a column, as the claim on the rows states it: the store key for
  \<^verbatim>\<open>SCENARIO\<close>, the record's \<^verbatim>\<open>URL\<close> for \<^verbatim>\<open>SCENARIO_URL\<close>, and for any other column the
  record's value, \<^verbatim>\<open>None\<close> when the record has none.
\<close>

definition row_entry :: "string \<Rightarrow> attributes \<Rightarrow> string \<Rightarrow> pyval" where
  "row_entry scenario a c =
     (if c = ''SCENARIO'' then PStr scenario
      else if c = ''SCENARIO_URL'' then dict_get a ''URL''
      else dict_get a c)"

subsection \<open>Fetching through the semaphore\<close>

text \<open>
  The network is a parameter: for a URL, the body that \<^verbatim>\<open>response.text()\<close> gives or the
  exception of the request (a timeout, a transport error). What a task does to the
  semaphore and to the network is kept as a trace of events, in program order.
\<close>

type_synonym network = "string \<Rightarrow> error + string option"

datatype event = Acquire | Release | Request string | Response string

definition fetch :: "network \<Rightarrow> string \<Rightarrow> (error + string option) \<times> event list" where
  "fetch net url = (net url, [Request url, Response url])"

text \<open>\<^verbatim>\<open>async with self.sem\<close> releases the semaphore also when the body raises.\<close>

definition fetch_scenario :: "network \<Rightarrow> string \<Rightarrow> (error + string option) \<times> event list" where
  "fetch_scenario net url =
     (case fetch net url of (raw_html, evs) \<Rightarrow> (raw_html, [Acquire] @ evs @ [Release]))"

subsection \<open>The scenario page parser\<close>

text \<open>The dictionary \<^verbatim>\<open>_scenario\<close> of the running task, and the events of the task so far.\<close>

record task =
  scenario :: attributes
  trace :: "event list"

text \<open>\<^verbatim>\<open>name = url_parts[url_parts.index('publicDatasets')+1]\<close>.\<close>

definition scenario_name :: "string \<Rightarrow> error + string" where
  "scenario_name url =
     (let url_parts = str_split CHR ''/'' url in
      case index url_parts ''publicDatasets'' of
        Inl e \<Rightarrow> Inl e
      | Inr i \<Rightarrow> if Suc i < length url_parts then Inr (url_parts ! Suc i) else Inl IndexError)"

text \<open>
  The loop over the anchors of the sub-page: \<^verbatim>\<open>item['href']\<close> raises \<^verbatim>\<open>KeyError\<close> for an
  anchor without the attribute; the first \<^verbatim>\<open>.binetflow\<close> link is recorded and ends the loop.
\<close>

fun scan_binetflow :: "tag list \<Rightarrow> attributes \<Rightarrow> error + attributes" where
  "scan_binetflow [] sc = Inr sc"
| "scan_binetflow (item # items) sc =
     (case getitem item ''href'' of
        Inl e \<Rightarrow> Inl e
      | Inr href \<Rightarrow>
          if endswith href ''.binetflow''
          then Inr (AList.update ''BINETFLOW'' (PStr (NETFLOW_DATA_DIR @ href)) sc)
          else scan_binetflow items sc)"

text \<open>
  The second \<^verbatim>\<open>if\<close> of the loop over the lines: \<^verbatim>\<open>(_k, _v) = line.split(':')\<close> raises
  \<^verbatim>\<open>ValueError\<close> unless the split has two parts, and the \<^verbatim>\<open>except\<close> clauses pass.
  A label whose upper case is no string of the model is none of the columns.
\<close>

definition scan_label :: "string list \<Rightarrow> string \<Rightarrow> attributes \<Rightarrow> attributes" where
  "scan_label cols line sc =
     (if str_in '':'' line \<and> line \<noteq> '':'' then
        (case str_split CHR '':'' line of
           [k0, v0] \<Rightarrow>
             (case upper k0 of
                None \<Rightarrow> sc
              | Some upper_k \<Rightarrow>
                  (let k = replace_space upper_k; v = strip v0
                   in if k \<in> set cols then AList.update k (PStr v) sc else sc))
         | _ \<Rightarrow> sc)
      else sc)"

text \<open>
  The body of the loop over the lines. The sub-page is fetched with \<^verbatim>\<open>self.fetch\<close>;
  an exception of that fetch, of the parser or of the anchor loop leaves the body and the
  function.
\<close>

definition scan_line ::
  "html_parser \<Rightarrow> network \<Rightarrow> string list \<Rightarrow> string \<Rightarrow> string \<Rightarrow> task \<Rightarrow> task \<times> error option" where
  "scan_line parser net cols url line t =
     (if str_in NETFLOW_DATA_DIR line then
        (case fetch net (url @ NETFLOW_DATA_DIR) of
           (r, evs) \<Rightarrow>
             (let t1 = t\<lparr>trace := trace t @ evs\<rparr> in
              case r of
                Inl e \<Rightarrow> (t1, Some e)
              | Inr subpage \<Rightarrow>
                  (case parser subpage of
                     Inl e \<Rightarrow> (t1, Some e)
                   | Inr subsoup \<Rightarrow>
                       (case scan_binetflow (anchors subsoup) (scenario t1) of
                          Inl e \<Rightarrow> (t1, Some e)
                        | Inr sc \<Rightarrow> (t1\<lparr>scenario := scan_label cols line sc\<rparr>, None)))))
      else (t\<lparr>scenario := scan_label cols line (scenario t)\<rparr>, None))"

fun scan_lines ::
  "html_parser \<Rightarrow> network \<Rightarrow> string list \<Rightarrow> string \<Rightarrow> string list \<Rightarrow> task \<Rightarrow> task \<times> error option" where
  "scan_lines parser net cols url [] t = (t, None)"
| "scan_lines parser net cols url (line # rest) t =
     (case scan_line parser net cols url line t of
        (t', Some e) \<Rightarrow> (t', Some e)
      | (t', None) \<Rightarrow> scan_lines parser net cols url rest t')"

text \<open>
  The loop over the anchors of the page: a link is filed under its upper-case extension.
  An extension whose upper case is no string of the model is not empty and none of the
  columns.
\<close>

fun scan_links :: "string list \<Rightarrow> tag list \<Rightarrow> attributes \<Rightarrow> attributes" where
  "scan_links cols [] sc = sc"
| "scan_links cols (item # items) sc =
     (let href = href_or_empty item in
      if startswith href ''?'' then scan_links cols items sc
      else (case upper (drop 1 (snd (splitext href))) of
              None \<Rightarrow> scan_links cols items sc
            | Some href_ext \<Rightarrow>
                if href_ext = [] then scan_links cols items sc
                else if href_ext \<in> set cols
                     then scan_links cols items (AList.update href_ext (PStr href) sc)
                     else scan_links cols items sc))"

text \<open>\<^verbatim>\<open>page not in ["", None] and "Not Found" not in page\<close>.\<close>

definition page_success :: "string option \<Rightarrow> bool" where
  "page_success page =
     (case page of None \<Rightarrow> False | Some p \<Rightarrow> p \<noteq> [] \<and> \<not> str_in ''Not Found'' p)"

definition page_value :: "string option \<Rightarrow> pyval" where
  "page_value page = (case page of None \<Rightarrow> PNone | Some p \<Rightarrow> PStr p)"

text \<open>
  \<^verbatim>\<open>_scenario\<close> is the dictionary stored in \<^verbatim>\<open>self.scenarios[name]\<close> itself, so what the
  task has written is in the store also when the task ends by an exception.
\<close>

definition store_scenario :: "ctu_dataset \<Rightarrow> string \<Rightarrow> attributes \<Rightarrow> ctu_dataset" where
  "store_scenario self name sc = self\<lparr>scenarios := AList.update name sc (scenarios self)\<rparr>"

text \<open>
  \<^verbatim>\<open>record_scenario_metadata\<close>, run from its start to its end with no other task
  writing the same scenario: the object after it, the events of the task, and the
  exception that ended it, if any.
\<close>

definition record_scenario_metadata ::
  "html_parser \<Rightarrow> network \<Rightarrow> ctu_dataset \<Rightarrow> string \<Rightarrow> string option \<Rightarrow>
   ctu_dataset \<times> event list \<times> error option" where
  "record_scenario_metadata parser net self grp url_arg =
     (case url_arg of
        None \<Rightarrow> (self, [], Some (RuntimeError ''url must not be None''))
      | Some url \<Rightarrow>
          (case scenario_name url of
             Inl e \<Rightarrow> (self, [], Some e)
           | Inr name \<Rightarrow>
               (let sc0 = (case map_of (scenarios self) name of None \<Rightarrow> [] | Some d \<Rightarrow> d);
                    sc1 = AList.update ''URL'' (PStr url) (AList.update ''GROUP'' (PStr grp) sc0)
                in case fetch_scenario net url of
                     (Inl e, evs) \<Rightarrow> (store_scenario self name sc1, evs, Some e)
                   | (Inr page, evs) \<Rightarrow>
                       (let sc2 = AList.update ''_SUCCESS'' (PBool (page_success page))
                                    (AList.update ''_PAGE'' (page_value page) sc1)
                        in case parser page of
                             Inl e \<Rightarrow> (store_scenario self name sc2, evs, Some e)
                           | Inr page_soup \<Rightarrow>
                               (case scan_lines parser net (columns self) url
                                       (splitlines (soup_text page_soup))
                                       \<lparr>scenario = sc2, trace = evs\<rparr> of
                                  (t, Some e) \<Rightarrow>
                                    (store_scenario self name (scenario t), trace t, Some e)
                                | (t, None) \<Rightarrow>
                                    (store_scenario self name
                                       (scan_links (columns self) (anchors page_soup) (scenario t)),
                                     trace t, None))))))"

text \<open>
  What the specification says of a line with a colon, in its words: the line is split at
  its first colon, whatever follows.
\<close>

definition first_colon_label :: "string list \<Rightarrow> string \<Rightarrow> attributes \<Rightarrow> attributes" where
  "first_colon_label cols line sc =
     (if str_in '':'' line \<and> line \<noteq> '':'' then
        (case upper (takeWhile (\<lambda>c. c \<noteq> CHR '':'') line) of
           None \<Rightarrow> sc
         | Some upper_label \<Rightarrow>
             (let k = replace_space upper_label;
                  v = strip (drop 1 (dropWhile (\<lambda>c. c \<noteq> CHR '':'') line))
              in if k \<in> set cols then AList.update k (PStr v) sc else sc))
      else sc)"

text \<open>
  The same with the amendment that the code forces: only a line with exactly one colon is
  split, and any other line records nothing.
\<close>

definition one_colon_label :: "string list \<Rightarrow> string \<Rightarrow> attributes \<Rightarrow> attributes" where
  "one_colon_label cols line sc =
     (if count_list line CHR '':'' = 1 then first_colon_label cols line sc else sc)"

text \<open>
  The record of the scenario when its page has been fetched and before the page is parsed:
  \<^verbatim>\<open>GROUP\<close>, \<^verbatim>\<open>URL\<close>, \<^verbatim>\<open>_PAGE\<close> and \<^verbatim>\<open>_SUCCESS\<close> written into the record the store
  has for the name, or into an empty one.
\<close>

definition fetched_record ::
  "ctu_dataset \<Rightarrow> string \<Rightarrow> string \<Rightarrow> string \<Rightarrow> string option \<Rightarrow> attributes" where
  "fetched_record self name grp url page =
     AList.update ''_SUCCESS'' (PBool (page_success page))
       (AList.update ''_PAGE'' (page_value page)
          (AList.update ''URL'' (PStr url)
             (AList.update ''GROUP'' (PStr grp)
                (case map_of (scenarios self) name of None \<Rightarrow> [] | Some d \<Rightarrow> d))))"

text \<open>
  What the first \<^verbatim>\<open>if\<close> of the loop over the lines does to the record: nothing for a
  line without the netflow directory; for a line with it, the \<^verbatim>\<open>BINETFLOW\<close> link of the
  sub-page, or the exception of the fetch, of the parser or of the anchor loop.
\<close>

definition netflow_fields ::
  "html_parser \<Rightarrow> network \<Rightarrow> string \<Rightarrow> string \<Rightarrow> attributes \<Rightarrow> error + attributes" where
  "netflow_fields parser net url line sc =
     (if str_in NETFLOW_DATA_DIR line then
        (case net (url @ NETFLOW_DATA_DIR) of
           Inl e \<Rightarrow> Inl e
         | Inr subpage \<Rightarrow>
             (case parser subpage of
                Inl e \<Rightarrow> Inl e
              | Inr subsoup \<Rightarrow> scan_binetflow (anchors subsoup) sc))
      else Inr sc)"

text \<open>
  The scan of the lines as the amended claim on the label lines states it: the lines are
  handled in order; the scan ends at the first line whose sub-page step \<open>sub\<close> raises;
  every line it reaches records its label by \<^const>\<open>one_colon_label\<close>, after the
  sub-page step.
\<close>

fun labelled_lines ::
  "string list \<Rightarrow> (string \<Rightarrow> attributes \<Rightarrow> error + attributes) \<Rightarrow> string list \<Rightarrow> attributes \<Rightarrow>
   attributes \<times> error option" where
  "labelled_lines cols sub [] sc = (sc, None)"
| "labelled_lines cols sub (line # rest) sc =
     (case sub line sc of
        Inl e \<Rightarrow> (sc, Some e)
      | Inr sc1 \<Rightarrow> labelled_lines cols sub rest (one_colon_label cols line sc1))"

text \<open>
  The record after the parse of a page: the lines are scanned, and the links are scanned
  unless the scan of the lines has raised.
\<close>

definition parsed_record ::
  "html_parser \<Rightarrow> network \<Rightarrow> string list \<Rightarrow> string \<Rightarrow> soup \<Rightarrow> attributes \<Rightarrow> attributes" where
  "parsed_record parser net cols url page_soup sc =
     (case labelled_lines cols (netflow_fields parser net url)
             (splitlines (soup_text page_soup)) sc of
        (sc', Some e) \<Rightarrow> sc'
      | (sc', None) \<Rightarrow> scan_links cols (anchors page_soup) sc')"

subsection \<open>Tasks under the event loop\<close>

text \<open>
  The tasks of a harvest run on one event loop: the events of each task happen in its
  program order, the tasks interleave, and a task that asks for the semaphore while
  \<^verbatim>\<open>semaphore_limit\<close> tasks hold it waits. A schedule names, step by step, the task
  that performs its next event; it is refused where that task has ended or has to wait.
\<close>

record loop_state =
  held :: nat
  in_flight :: nat
  peak :: nat

definition perform :: "nat \<Rightarrow> event \<Rightarrow> loop_state \<Rightarrow> loop_state option" where
  "perform limit ev s =
     (case ev of
        Acquire \<Rightarrow> if held s < limit then Some (s\<lparr>held := Suc (held s)\<rparr>) else None
      | Release \<Rightarrow> Some (s\<lparr>held := held s - 1\<rparr>)
      | Request u \<Rightarrow> Some (s\<lparr>in_flight := Suc (in_flight s),
                              peak := max (peak s) (Suc (in_flight s))\<rparr>)
      | Response u \<Rightarrow> Some (s\<lparr>in_flight := in_flight s - 1\<rparr>))"

fun run :: "nat \<Rightarrow> nat list \<Rightarrow> event list list \<Rightarrow> loop_state \<Rightarrow> loop_state option" where
  "run limit [] tasks s = Some s"
| "run limit (i # schedule) tasks s =
     (if i < length tasks then
        (case tasks ! i of
           [] \<Rightarrow> None
         | ev # rest \<Rightarrow>
             (case perform limit ev s of
                None \<Rightarrow> None
              | Some s' \<Rightarrow> run limit schedule (tasks[i := rest]) s'))
      else None)"

subsection \<open>The cache\<close>

text \<open>
  A file has its bytes and its modification time; \<^verbatim>\<open>os.stat\<close> of a path with no file
  raises \<^verbatim>\<open>FileNotFoundError\<close>. Times are real numbers of seconds.
\<close>

record disk_file =
  content :: string
  st_mtime :: real

definition st_size :: "disk_file \<Rightarrow> nat" where
  "st_size f = length (content f)"

type_synonym filesystem = "string \<rightharpoonup> disk_file"

definition delete_cache :: "ctu_dataset \<Rightarrow> filesystem \<Rightarrow> filesystem" where
  "delete_cache self fs = fs(cache_file self := None)"

text \<open>
  \<^verbatim>\<open>cache_expired(self, cache_timeout=__CACHE_TIMEOUT__)\<close>: the argument is \<open>None\<close> where
  the caller gives none. The result is the flag and the file system after the call.
\<close>

definition cache_expired ::
  "ctu_dataset \<Rightarrow> real option \<Rightarrow> filesystem \<Rightarrow> real \<Rightarrow> bool \<times> filesystem" where
  "cache_expired self timeout_arg fs now =
     (let timeout = (case timeout_arg of None \<Rightarrow> CACHE_TIMEOUT | Some t \<Rightarrow> t) in
      case fs (cache_file self) of
        None \<Rightarrow> (True, fs)
      | Some stat_results \<Rightarrow>
          (let fs' = (if st_size stat_results = 0 then delete_cache self fs else fs);
               age = now - st_mtime stat_results
           in if age \<le> timeout then (False, fs') else (True, fs')))"

text \<open>The test that opens \<^verbatim>\<open>load_ctu_metadata\<close>:
  \<^verbatim>\<open>not self.cache_expired() and not self.ignore_cache\<close>.\<close>

definition load_reads_cache :: "ctu_dataset \<Rightarrow> filesystem \<Rightarrow> real \<Rightarrow> bool \<times> filesystem" where
  "load_reads_cache self fs now =
     (case cache_expired self None fs now of
        (expired, fs') \<Rightarrow> (\<not> expired \<and> \<not> ignore_cache self, fs'))"

text \<open>
  The objects that \<^verbatim>\<open>json.dump\<close> writes and \<^verbatim>\<open>json.load\<close> gives back. The codec
  is the library's and a parameter of the model: \<open>dumps\<close> is the text written for an
  object, \<open>loads\<close> the object read from a text or the exception of the decoder.
\<close>

datatype json = JNull | JBool bool | JStr string | JArr "json list" | JObj "(string \<times> json) list"

record json_codec =
  dumps :: "json \<Rightarrow> string"
  loads :: "string \<Rightarrow> error + json"

definition json_of_pyval :: "pyval \<Rightarrow> json" where
  "json_of_pyval v = (case v of PStr s \<Rightarrow> JStr s | PBool b \<Rightarrow> JBool b | PNone \<Rightarrow> JNull)"

definition json_of_attributes :: "attributes \<Rightarrow> json" where
  "json_of_attributes a = JObj (map (\<lambda>(k, v). (k, json_of_pyval v)) a)"

definition json_of_store :: "store \<Rightarrow> json" where
  "json_of_store st = JObj (map (\<lambda>(name, a). (name, json_of_attributes a)) st)"

text \<open>\<^verbatim>\<open>_cache\<close> of \<^verbatim>\<open>write_cache\<close>.\<close>

definition cache_object :: "ctu_dataset \<Rightarrow> json" where
  "cache_object self =
     JObj [(''scenarios'', json_of_store (scenarios self)),
           (''columns'', JArr (map JStr (columns self)))]"

definition write_cache :: "json_codec \<Rightarrow> ctu_dataset \<Rightarrow> filesystem \<Rightarrow> real \<Rightarrow> bool \<times> filesystem" where
  "write_cache codec self fs now =
     (True, fs(cache_file self \<mapsto> \<lparr>content = dumps codec (cache_object self), st_mtime = now\<rparr>))"

text \<open>
  \<^verbatim>\<open>read_cache\<close> assigns whatever object the file holds under the two keys. The fields
  of the model are typed: an object that is not of the shape \<^verbatim>\<open>write_cache\<close> writes has no
  value in the model, and reading it is marked by \<open>Untyped\<close>, which is no exception of
  the program.
\<close>

datatype read_error = Raised error | Untyped

definition pyval_of_json :: "json \<Rightarrow> pyval option" where
  "pyval_of_json j =
     (case j of JStr s \<Rightarrow> Some (PStr s) | JBool b \<Rightarrow> Some (PBool b) | JNull \<Rightarrow> Some PNone
      | _ \<Rightarrow> None)"

text \<open>The members of an object, each value converted; \<open>None\<close> if one has no conversion.\<close>

fun members_of :: "(json \<Rightarrow> 'a option) \<Rightarrow> (string \<times> json) list \<Rightarrow> (string \<times> 'a) list option" where
  "members_of f [] = Some []"
| "members_of f ((k, j) # ms) =
     (case f j of
        None \<Rightarrow> None
      | Some v \<Rightarrow> (case members_of f ms of None \<Rightarrow> None | Some vs \<Rightarrow> Some ((k, v) # vs)))"

definition attributes_of_json :: "json \<Rightarrow> attributes option" where
  "attributes_of_json j = (case j of JObj ms \<Rightarrow> members_of pyval_of_json ms | _ \<Rightarrow> None)"

definition store_of_json :: "json \<Rightarrow> store option" where
  "store_of_json j = (case j of JObj ms \<Rightarrow> members_of attributes_of_json ms | _ \<Rightarrow> None)"

fun strings_of :: "json list \<Rightarrow> string list option" where
  "strings_of [] = Some []"
| "strings_of (j # js) =
     (case j of
        JStr s \<Rightarrow> (case strings_of js of None \<Rightarrow> None | Some ss \<Rightarrow> Some (s # ss))
      | _ \<Rightarrow> None)"

definition columns_of_json :: "json \<Rightarrow> string list option" where
  "columns_of_json j = (case j of JArr js \<Rightarrow> strings_of js | _ \<Rightarrow> None)"

text \<open>\<^verbatim>\<open>_cache[key]\<close>: \<^verbatim>\<open>KeyError\<close> for a dictionary without the key, \<^verbatim>\<open>TypeError\<close> for an
  object that is no dictionary.\<close>

definition json_getitem :: "json \<Rightarrow> string \<Rightarrow> error + json" where
  "json_getitem j k = (case j of JObj ms \<Rightarrow> getitem ms k | _ \<Rightarrow> Inl TypeError)"

text \<open>
  \<^verbatim>\<open>read_cache\<close>: what it returns or raises, the object and the file system after it.
  \<^verbatim>\<open>open\<close> raises \<^verbatim>\<open>FileNotFoundError\<close> when \<^verbatim>\<open>cache_expired\<close> has just deleted the
  file.
\<close>

definition read_cache ::
  "json_codec \<Rightarrow> ctu_dataset \<Rightarrow> filesystem \<Rightarrow> real \<Rightarrow> (read_error + bool) \<times> ctu_dataset \<times> filesystem" where
  "read_cache codec self fs now =
     (case cache_expired self None fs now of
        (True, fs') \<Rightarrow> (Inr False, self, fs')
      | (False, fs') \<Rightarrow>
          (case fs' (cache_file self) of
             None \<Rightarrow> (Inl (Raised FileNotFoundError), self, fs')
           | Some infile \<Rightarrow>
               (case loads codec (content infile) of
                  Inl e \<Rightarrow> (Inl (Raised e), self, fs')
                | Inr cache \<Rightarrow>
                    (case json_getitem cache ''scenarios'' of
                       Inl e \<Rightarrow> (Inl (Raised e), self, fs')
                     | Inr js \<Rightarrow>
                         (case store_of_json js of
                            None \<Rightarrow> (Inl Untyped, self, fs')
                          | Some st \<Rightarrow>
                              (case json_getitem cache ''columns'' of
                                 Inl e \<Rightarrow> (Inl (Raised e), self\<lparr>scenarios := st\<rparr>, fs')
                               | Inr jc \<Rightarrow>
                                   (case columns_of_json jc of
                                      None \<Rightarrow> (Inl Untyped, self\<lparr>scenarios := st\<rparr>, fs')
                                    | Some cols \<Rightarrow>
                                        (Inr True, self\<lparr>scenarios := st, columns := cols\<rparr>,
                                         fs'))))))))"

subsection \<open>Example inputs\<close>

text \<open>The object that \<^verbatim>\<open>CTU_Dataset()\<close> constructs, and the address of one scenario.\<close>

definition example_dataset :: ctu_dataset where
  "example_dataset =
     \<lparr>groups = [''ctu13''], columns = COLUMNS, cache_timeout = CACHE_TIMEOUT,
      semaphore_limit = SEMAPHORE_LIMIT, ignore_cache = False, cache_file = CACHE_FILE,
      debug = False, scenarios = []\<rparr>"

definition example_url :: string where
  "example_url = ''https://mcfp.felk.cvut.cz/publicDatasets/CTU-13-1/''"

text \<open>A network that answers every request with the same body.\<close>

definition serve :: "string \<Rightarrow> network" where
  "serve body url = Inr (Some body)"

text \<open>A network whose responses have no text.\<close>

definition serve_none :: network where
  "serve_none url = Inr None"

definition serve_landing :: "string \<Rightarrow> string \<Rightarrow> error + string" where
  "serve_landing body url = Inr body"

text \<open>A landing page with one anchor, and what the parser gives for it.\<close>

definition landing_url :: string where
  "landing_url = ''https://www.stratosphereips.org/datasets-ctu13''"

definition landing_html :: string where
  \<open>landing_html = ''<a href="/publicDatasets/CTU-13-1/">CTU-13-1</a>''\<close>

definition landing_page :: soup where
  "landing_page = \<lparr>soup_text = ''CTU-13-1'', anchors = [[(''href'', ''/publicDatasets/CTU-13-1/'')]]\<rparr>"

definition parsed_as :: "soup \<Rightarrow> html_parser" where
  "parsed_as page markup = Inr page"

text \<open>
  The object after the harvest of one scenario whose page is the line
  \<^verbatim>\<open>SHA1: abc123\<close>: the record has no \<^verbatim>\<open>MD5\<close> and no \<^verbatim>\<open>SHA256\<close>.
\<close>

definition harvested_dataset :: ctu_dataset where
  "harvested_dataset =
     example_dataset\<lparr>scenarios :=
       [(''CTU-13-1'',
         [(''GROUP'', PStr ''ctu13''), (''URL'', PStr example_url),
          (''_PAGE'', PStr ''SHA1: abc123''), (''_SUCCESS'', PBool True),
          (''SHA1'', PStr ''abc123'')])]\<rparr>"

text \<open>
  The text that \<^verbatim>\<open>json.dump\<close> writes for the cache of \<^const>\<open>harvested_dataset\<close>, and
  the codec on that one text.
\<close>

definition harvested_text :: string where
  \<open>harvested_text =
     ''{"scenarios": {"CTU-13-1": {"GROUP": "ctu13", '' @
     ''"URL": "https://mcfp.felk.cvut.cz/publicDatasets/CTU-13-1/", '' @
     ''"_PAGE": "SHA1: abc123", "_SUCCESS": true, "SHA1": "abc123"}}, '' @
     ''"columns": ["SCENARIO", "GROUP", "SCENARIO_URL", "PROBABLE_NAME", "ZIP", "MD5", '' @
     ''"SHA1", "SHA256", "LABELED", "BINETFLOW", "PCAP"]}''\<close>

definition harvested_codec :: json_codec where
  "harvested_codec =
     \<lparr>dumps = (\<lambda>obj. harvested_text),
      loads = (\<lambda>t. if t = harvested_text then Inr (cache_object harvested_dataset)
                    else Inl JSONDecodeError)\<rparr>"

text \<open>An empty cache file written at time 1000, and a cache file of two bytes written at
  time 0.\<close>

definition empty_cache :: filesystem where
  "empty_cache = [CACHE_FILE \<mapsto> \<lparr>content = [], st_mtime = 1000\<rparr>]"

definition old_cache :: filesystem where
  "old_cache = [CACHE_FILE \<mapsto> \<lparr>content = ''{}'', st_mtime = 0\<rparr>]"

text \<open>An object whose semaphore has one slot, and the event loop before any task runs.\<close>

definition single_slot :: ctu_dataset where
  "single_slot = example_dataset\<lparr>semaphore_limit := 1\<rparr>"

definition idle :: loop_state where
  "idle = \<lparr>held = 0, in_flight = 0, peak = 0\<rparr>"

text \<open>An object constructed with \<^verbatim>\<open>cache_timeout=60\<close>.\<close>

definition one_minute :: ctu_dataset where
  "one_minute = example_dataset\<lparr>cache_timeout := 60\<rparr>"

section \<open>Properties\<close>

subsection \<open>The examples are what the code produces\<close>

lemma example_dataset_constructed: "init_default [''ctu13''] = Inr example_dataset"
  by (simp add: init_default_def init_def example_dataset_def GROUPS_def DATASETS_URLS_def
                SEMAPHORE_LIMIT_def)

lemma single_slot_constructed:
  "init [''ctu13''] COLUMNS CACHE_TIMEOUT 1 False CACHE_FILE False = Inr single_slot"
  by (simp add: init_def example_dataset_def single_slot_def GROUPS_def DATASETS_URLS_def)

lemma one_minute_constructed:
  "init [''ctu13''] COLUMNS 60 SEMAPHORE_LIMIT False CACHE_FILE False = Inr one_minute"
  by (simp add: init_def example_dataset_def one_minute_def GROUPS_def DATASETS_URLS_def
                SEMAPHORE_LIMIT_def)

lemma harvested_dataset_harvested:
  "fst (record_scenario_metadata plain_text_parser (serve ''SHA1: abc123'') example_dataset
          ''ctu13'' (Some example_url)) = harvested_dataset"
  by code_simp

subsection \<open>The constructor\<close>

lemma check_groups_unknown:
  "x \<in> set gs \<Longrightarrow> x \<notin> set GROUPS \<Longrightarrow>
   \<exists>g. g \<in> set gs \<and> g \<notin> set GROUPS \<and> check_groups gs = Some (unknown_group g)"
  by (induction gs) auto

lemma all_not_group: "''all'' \<notin> set GROUPS"
  by (simp add: GROUPS_def DATASETS_URLS_def)

text \<open>
  Claim C9. Whenever the list \<^verbatim>\<open>groups\<close> contains \<^verbatim>\<open>"all"\<close>, the constructor raises the
  unknown-group \<^verbatim>\<open>RuntimeError\<close> for a name of the list that is no group, out of the
  loop that validates the names; it returns no object, so the branch that would expand
  \<^verbatim>\<open>"all"\<close> to every group is never reached.
\<close>

theorem init_all_raises:
  assumes "''all'' \<in> set gs"
  shows "\<exists>g. g \<in> set gs \<and> g \<notin> set GROUPS
             \<and> init gs cols timeout limit ignore file dbg = Inl (unknown_group g)"
proof -
  from check_groups_unknown [OF assms all_not_group]
  obtain g where "g \<in> set gs" "g \<notin> set GROUPS" "check_groups gs = Some (unknown_group g)"
    by blast
  then show ?thesis by (auto simp: init_def)
qed

theorem init_all_raises_witness:
  \<open>''all'' \<in> set [''ctu13'', ''all'']
   \<and> init_default [''ctu13'', ''all'']
       = Inl (RuntimeError ''Dataset group "all" not found in [ctu13,mixed,normal,malware]'')\<close>
proof -
  have h: "''all'' \<in> set [''ctu13'', ''all'']" by simp
  from init_all_raises [OF h, of COLUMNS CACHE_TIMEOUT SEMAPHORE_LIMIT False CACHE_FILE False]
  obtain g where g: "g \<in> set [''ctu13'', ''all'']" "g \<notin> set GROUPS"
    and r: "init_default [''ctu13'', ''all''] = Inl (unknown_group g)"
    unfolding init_default_def by blast
  from g have "g = ''all''" by (auto simp: GROUPS_def DATASETS_URLS_def)
  with r h show ?thesis by (simp add: unknown_group_def GROUPS_def DATASETS_URLS_def)
qed

subsection \<open>Scenario discovery\<close>

lemma str_in_sublist: "str_in sub s = sublist sub s"
  by (induction s) (auto simp: sublist_Cons_right)

lemma scan_scenarios_spec: "scan_scenarios items found = found @ discovered_spec items"
  by (induction items arbitrary: found)
     (auto simp: discovered_spec_def href_or_empty_def getitem_def startswith_def endswith_def
                 str_in_sublist suffix_to_prefix Let_def split: option.splits)

text \<open>
  Claim C8. For a landing page that is fetched and parsed, \<^verbatim>\<open>get_scenarios\<close> returns
  exactly the \<^verbatim>\<open>href\<close>s, in document order, of the anchors that have an \<^verbatim>\<open>href\<close> not
  beginning with a question mark, containing \<^verbatim>\<open>/publicDatasets/\<close> and ending in a slash.
  The witness is the page with the one anchor \<^verbatim>\<open>href="/publicDatasets/CTU-13-1/"\<close>, which
  yields exactly that one address.
\<close>

theorem get_scenarios_discovers:
  assumes "http_get url = Inr body" and "parser (Some body) = Inr page"
  shows "get_scenarios parser http_get grp url = Inr (discovered_spec (anchors page))"
  using assms by (simp add: get_scenarios_def scan_scenarios_spec)

theorem get_scenarios_discovers_witness:
  "serve_landing landing_html landing_url = Inr landing_html
   \<and> parsed_as landing_page (Some landing_html) = Inr landing_page
   \<and> get_scenarios (parsed_as landing_page) (serve_landing landing_html) ''ctu13'' landing_url
     = Inr [''/publicDatasets/CTU-13-1/'']"
proof -
  have fetched: "serve_landing landing_html landing_url = Inr landing_html"
    by (simp add: serve_landing_def)
  have parsed: "parsed_as landing_page (Some landing_html) = Inr landing_page"
    by (simp add: parsed_as_def)
  have found: "discovered_spec (anchors landing_page) = [''/publicDatasets/CTU-13-1/'']"
    by (simp add: discovered_spec_def landing_page_def sublist_Cons_right suffix_to_prefix)
  from get_scenarios_discovers
         [of "serve_landing landing_html" landing_url landing_html "parsed_as landing_page"
             landing_page "''ctu13''"]
       fetched parsed found
  show ?thesis by simp
qed

subsection \<open>The query\<close>

lemma map_of_fill_row:
  "map_of (fill_row cs a row) c =
     (if dict_has row c then map_of row c
      else if c \<in> set cs then Some (dict_get a c) else None)"
  by (induction cs a row rule: fill_row.induct)
     (auto simp: dict_has_def update_conv' split: if_splits)

lemma metadata_row_entries:
  assumes "metadata_row cols gs ni hh name a = Inr (Some row)"
  shows "dict_has a ''URL'' \<and> row = map (row_entry name a) cols"
  using assms
  by (auto simp: metadata_row_def getitem_def dict_has_def dict_get_def row_entry_def
                 map_of_fill_row update_conv' Let_def
           split: if_splits sum.splits option.splits bool.splits)

lemma metadata_loop_rows:
  assumes "metadata_loop cols gs ni hh items data = Inr rows" and "row \<in> set rows"
  shows "row \<in> set data \<or>
         (\<exists>name a. (name, a) \<in> set items \<and> dict_has a ''URL''
                        \<and> row = map (row_entry name a) cols)"
  using assms
proof (induction cols gs ni hh items data rule: metadata_loop.induct)
  case (1 cols gs ni hh data)
  then show ?case by simp
next
  case (2 cols gs ni hh name a items data)
  show ?case
  proof (cases "metadata_row cols gs ni hh name a")
    case (Inl e)
    with "2.prems" show ?thesis by simp
  next
    case (Inr r)
    show ?thesis
    proof (cases r)
      case None
      with Inr "2.prems" "2.IH"(1) show ?thesis by auto
    next
      case (Some new)
      with Inr "2.prems" "2.IH"(2) [of r new]
      have "row \<in> set (data @ [new]) \<or>
            (\<exists>name a. (name, a) \<in> set items \<and> dict_has a ''URL''
                           \<and> row = map (row_entry name a) cols)"
        by simp
      moreover from Inr Some have "dict_has a ''URL'' \<and> new = map (row_entry name a) cols"
        using metadata_row_entries by blast
      ultimately show ?thesis by auto
    qed
  qed
qed

text \<open>
  Claim C10. Every row that \<^verbatim>\<open>get_metadata\<close> returns has one entry per configured
  column, in the order of the columns, and is the projection of one item of the store: the
  entry for \<^verbatim>\<open>SCENARIO\<close> is the key of the item, the entry for \<^verbatim>\<open>SCENARIO_URL\<close> is the
  \<^verbatim>\<open>URL\<close> of its record, which the record has, and the entry for any other column is the
  record's value, \<^verbatim>\<open>None\<close> (not an empty string) where the record has none.
\<close>

theorem get_metadata_rows:
  assumes "get_metadata self gs name_includes has_hash = Inr rows" and "row \<in> set rows"
  shows "length row = length (columns self)
         \<and> (\<exists>name a. (name, a) \<in> set (scenarios self) \<and> dict_has a ''URL''
                \<and> row = map (row_entry name a) (columns self))"
  using metadata_loop_rows [of "columns self" gs name_includes has_hash "scenarios self" "[]" rows row]
    assms
  by (auto simp: get_metadata_def)

theorem get_metadata_rows_witness:
  "get_metadata harvested_dataset (Some [''ctu13'']) None None
     = Inr [[PStr ''CTU-13-1'', PStr ''ctu13'', PStr example_url, PNone, PNone, PNone,
             PStr ''abc123'', PNone, PNone, PNone, PNone]]
   \<and> length [PStr ''CTU-13-1'', PStr ''ctu13'', PStr example_url, PNone, PNone, PNone,
              PStr ''abc123'', PNone, PNone, PNone, PNone]
     = length (columns harvested_dataset)
   \<and> (\<exists>name a. (name, a) \<in> set (scenarios harvested_dataset) \<and> dict_has a ''URL''
          \<and> [PStr ''CTU-13-1'', PStr ''ctu13'', PStr example_url, PNone, PNone, PNone,
              PStr ''abc123'', PNone, PNone, PNone, PNone]
            = map (row_entry name a) (columns harvested_dataset))"
proof -
  have rows: "get_metadata harvested_dataset (Some [''ctu13'']) None None
                = Inr [[PStr ''CTU-13-1'', PStr ''ctu13'', PStr example_url, PNone, PNone, PNone,
                        PStr ''abc123'', PNone, PNone, PNone, PNone]]"
    by code_simp
  from get_metadata_rows [OF rows] rows show ?thesis by simp
qed

text \<open>
  Claim C3. The claim holds that a record without one of \<^verbatim>\<open>MD5\<close>, \<^verbatim>\<open>SHA1\<close>,
  \<^verbatim>\<open>SHA256\<close> is skipped, or returned when another of them equals \<^verbatim>\<open>has_hash\<close>. The
  code subscripts the three fields: on the record harvested from the page
  \<^verbatim>\<open>SHA1: abc123\<close>, which has no \<^verbatim>\<open>MD5\<close>, the query for \<^verbatim>\<open>abc123\<close> and the query for
  \<^verbatim>\<open>xyz\<close> both raise \<^verbatim>\<open>KeyError\<close>, where the claim returns the record for the first and
  skips it for the second.
\<close>

theorem hash_filter_raises_keyerror:
  "get_metadata harvested_dataset (Some [''ctu13'']) None (Some ''abc123'') = Inl (KeyError ''MD5'')
   \<and> get_metadata harvested_dataset (Some [''ctu13'']) None (Some ''xyz'') = Inl (KeyError ''MD5'')"
  by code_simp

subsection \<open>The scenario page parser\<close>

text \<open>The string methods on characters that are not ASCII.\<close>

lemma latin1_examples:
  "strip (''deadbeef'' @ [CHR 0xA0]) = ''deadbeef''
   \<and> splitlines (''MD5: a'' @ [CHR 0x85] @ ''SHA1: b'') = [''MD5: a'', ''SHA1: b'']
   \<and> upper [CHR 0xE9] = Some [CHR 0xC9]
   \<and> upper [CHR 0xDF] = Some ''SS''
   \<and> upper [CHR 0xFF] = None
   \<and> lower [CHR 0xC9] = [CHR 0xE9]
   \<and> scan_label COLUMNS (''MD5: deadbeef'' @ [CHR 0xA0]) [] = [(''MD5'', PStr ''deadbeef'')]"
  by code_simp

lemma str_in_colon: "str_in '':'' line = (CHR '':'' \<in> set line)"
  by (induction line) auto

lemma str_split_no_sep: "sep \<notin> set s \<Longrightarrow> str_split sep s = [s]"
  by (induction s) auto

lemma str_split_length: "length (str_split sep s) = Suc (count_list s sep)"
  by (induction s) (auto split: list.splits)

lemma str_split_one:
  "count_list s sep = 1 \<Longrightarrow>
   str_split sep s = [takeWhile (\<lambda>c. c \<noteq> sep) s, drop 1 (dropWhile (\<lambda>c. c \<noteq> sep) s)]"
proof (induction s)
  case Nil
  then show ?case by simp
next
  case (Cons c s)
  show ?case
  proof (cases "c = sep")
    case True
    with Cons.prems have "sep \<notin> set s" by (simp add: count_list_0_iff)
    with True show ?thesis by (simp add: str_split_no_sep)
  next
    case False
    with Cons show ?thesis by simp
  qed
qed

lemma scan_label_characterised: "scan_label cols line sc = one_colon_label cols line sc"
proof (cases "count_list line CHR '':'' = 1")
  case True
  then show ?thesis
    by (simp add: scan_label_def first_colon_label_def one_colon_label_def str_split_one Let_def
             split: option.splits)
next
  case False
  have "length (str_split CHR '':'' line) \<noteq> 2"
    using False by (simp add: str_split_length)
  then have "(case str_split CHR '':'' line of
           [k0, v0] \<Rightarrow>
             (case upper k0 of
                None \<Rightarrow> sc
              | Some upper_k \<Rightarrow>
                  (let k = replace_space upper_k; v = strip v0
                   in if k \<in> set cols then AList.update k (PStr v) sc else sc))
         | _ \<Rightarrow> sc) = sc"
    by (auto split: list.splits)
  with False show ?thesis by (simp add: scan_label_def one_colon_label_def)
qed

lemma scan_line_fields:
  assumes "scan_line parser net cols url line t = (t', r)"
  shows "(case netflow_fields parser net url line (scenario t) of
            Inl e \<Rightarrow> r = Some e \<and> scenario t' = scenario t
          | Inr sc \<Rightarrow> r = None \<and> scenario t' = one_colon_label cols line sc)"
  using assms
  by (auto simp: scan_line_def netflow_fields_def fetch_def Let_def scan_label_characterised
           split: if_splits sum.splits)

lemma scan_lines_labelled:
  "scan_lines parser net cols url ls t = (t', r) \<Longrightarrow>
   labelled_lines cols (netflow_fields parser net url) ls (scenario t) = (scenario t', r)"
proof (induction ls arbitrary: t)
  case Nil
  then show ?case by auto
next
  case (Cons line ls)
  obtain t1 r1 where step: "scan_line parser net cols url line t = (t1, r1)"
    by (cases "scan_line parser net cols url line t")
  note fields = scan_line_fields [OF step]
  show ?case
  proof (cases "netflow_fields parser net url line (scenario t)")
    case (Inl e)
    with fields have "r1 = Some e" "scenario t1 = scenario t" by simp_all
    with step Cons.prems Inl show ?thesis by auto
  next
    case (Inr sc)
    with fields have r1: "r1 = None" and t1: "scenario t1 = one_colon_label cols line sc"
      by simp_all
    with step Cons.prems have "scan_lines parser net cols url ls t1 = (t', r)" by simp
    from Cons.IH [OF this] Inr t1 show ?thesis by simp
  qed
qed

text \<open>
  The record that \<^verbatim>\<open>record_scenario_metadata\<close> leaves for a page that has been fetched:
  the fetched record when the HTML parser raises, the parsed record otherwise.
\<close>

lemma record_of_page:
  assumes name: "scenario_name url = Inr name" and page: "net url = Inr page"
  shows "map_of (scenarios (fst (record_scenario_metadata parser net self grp (Some url)))) name
         = Some (case parser page of
                   Inl e \<Rightarrow> fetched_record self name grp url page
                 | Inr page_soup \<Rightarrow>
                     parsed_record parser net (columns self) url page_soup
                       (fetched_record self name grp url page))"
    and "parser page = Inr page_soup \<Longrightarrow>
         snd (snd (record_scenario_metadata parser net self grp (Some url)))
         = snd (labelled_lines (columns self) (netflow_fields parser net url)
                  (splitlines (soup_text page_soup)) (fetched_record self name grp url page))"
proof -
  have stored: "map_of (scenarios (store_scenario self name a)) name = Some a" for a
    by (simp add: store_scenario_def update_conv')
  have fs: "fetch_scenario net url = (Inr page, [Acquire, Request url, Response url, Release])"
    using page by (simp add: fetch_scenario_def fetch_def)
  show "map_of (scenarios (fst (record_scenario_metadata parser net self grp (Some url)))) name
         = Some (case parser page of
                   Inl e \<Rightarrow> fetched_record self name grp url page
                 | Inr page_soup \<Rightarrow>
                     parsed_record parser net (columns self) url page_soup
                       (fetched_record self name grp url page))"
  proof (cases "parser page")
    case (Inl e)
    then have "fst (record_scenario_metadata parser net self grp (Some url))
                 = store_scenario self name (fetched_record self name grp url page)"
      using name fs by (simp add: record_scenario_metadata_def Let_def fetched_record_def)
    with stored Inl show ?thesis by simp
  next
    case (Inr soup)
    obtain t r where lines:
      "scan_lines parser net (columns self) url (splitlines (soup_text soup))
         \<lparr>scenario = fetched_record self name grp url page,
          trace = [Acquire, Request url, Response url, Release]\<rparr> = (t, r)"
      by (cases "scan_lines parser net (columns self) url (splitlines (soup_text soup))
                   \<lparr>scenario = fetched_record self name grp url page,
                    trace = [Acquire, Request url, Response url, Release]\<rparr>")
    from scan_lines_labelled [OF lines]
    have spec: "labelled_lines (columns self) (netflow_fields parser net url)
                  (splitlines (soup_text soup)) (fetched_record self name grp url page)
                = (scenario t, r)"
      by simp
    show ?thesis
    proof (cases r)
      case None
      then have "fst (record_scenario_metadata parser net self grp (Some url))
                   = store_scenario self name
                       (scan_links (columns self) (anchors soup) (scenario t))"
        using name fs Inr lines
        by (simp add: record_scenario_metadata_def Let_def fetched_record_def)
      with stored Inr spec None show ?thesis by (simp add: parsed_record_def)
    next
      case (Some e)
      then have "fst (record_scenario_metadata parser net self grp (Some url))
                   = store_scenario self name (scenario t)"
        using name fs Inr lines
        by (simp add: record_scenario_metadata_def Let_def fetched_record_def)
      with stored Inr spec Some show ?thesis by (simp add: parsed_record_def)
    qed
  qed
  show "snd (snd (record_scenario_metadata parser net self grp (Some url)))
         = snd (labelled_lines (columns self) (netflow_fields parser net url)
                  (splitlines (soup_text page_soup)) (fetched_record self name grp url page))"
    if soup: "parser page = Inr page_soup"
  proof -
    obtain t r where lines:
      "scan_lines parser net (columns self) url (splitlines (soup_text page_soup))
         \<lparr>scenario = fetched_record self name grp url page,
          trace = [Acquire, Request url, Response url, Release]\<rparr> = (t, r)"
      by (cases "scan_lines parser net (columns self) url (splitlines (soup_text page_soup))
                   \<lparr>scenario = fetched_record self name grp url page,
                    trace = [Acquire, Request url, Response url, Release]\<rparr>")
    from scan_lines_labelled [OF lines]
    have spec: "labelled_lines (columns self) (netflow_fields parser net url)
                  (splitlines (soup_text page_soup)) (fetched_record self name grp url page)
                = (scenario t, r)"
      by simp
    have "snd (snd (record_scenario_metadata parser net self grp (Some url))) = r"
      using name fs soup lines
      by (cases r) (simp_all add: record_scenario_metadata_def Let_def fetched_record_def)
    with spec show ?thesis by simp
  qed
qed

text \<open>
  Claim C4, as stated, fails: a line with a second colon is not split at its first colon.
  On the line \<^verbatim>\<open>MD5: dead:beef\<close> the split at the first colon would record
  \<^verbatim>\<open>MD5 = "dead:beef"\<close>; the code records nothing.
\<close>

theorem second_colon_skips_line:
  "scan_label COLUMNS ''MD5: dead:beef'' [] = []
   \<and> first_colon_label COLUMNS ''MD5: dead:beef'' [] = [(''MD5'', PStr ''dead:beef'')]"
  by code_simp

text \<open>
  Claim C4, amended. For a scenario page that is fetched and parsed, the scan handles the
  lines of the visible text in order and ends at the first line whose sub-page step (the
  fetch of the netflow listing, its parse, its anchor loop) raises. Every line that the
  scan reaches and that has exactly one colon, other than the bare \<^verbatim>\<open>:\<close>, is split at
  the colon into a label and a value; the label is put in upper case with its spaces
  replaced by underscores, and if it is a column name the stripped value is recorded under
  it. A line with no colon or with more than one colon records nothing. The record of the
  scenario after the call is the record so scanned, followed by the scan of the links when
  no line has raised, and the call raises what the scan of the lines raises. The page
  \<^verbatim>\<open>"MD5: deadbeef\nSHA1: cafef00d\n"\<close> yields \<^verbatim>\<open>MD5 = "deadbeef"\<close> and
  \<^verbatim>\<open>SHA1 = "cafef00d"\<close>.
\<close>

theorem page_lines_labelled:
  assumes "scenario_name url = Inr name" and "net url = Inr page"
    and "parser page = Inr page_soup"
  shows "map_of (scenarios (fst (record_scenario_metadata parser net self grp (Some url)))) name
         = Some (parsed_record parser net (columns self) url page_soup
                   (fetched_record self name grp url page))
       \<and> snd (snd (record_scenario_metadata parser net self grp (Some url)))
         = snd (labelled_lines (columns self) (netflow_fields parser net url)
                  (splitlines (soup_text page_soup)) (fetched_record self name grp url page))"
  using record_of_page(1)
          [where url = url and name = name and net = net and page = page and parser = parser
             and self = self and grp = grp, OF assms(1,2)]
        record_of_page(2)
          [where url = url and name = name and net = net and page = page and parser = parser
             and self = self and grp = grp and page_soup = page_soup, OF assms]
        assms(3)
  by simp

theorem page_lines_labelled_witness:
  "scenario_name example_url = Inr ''CTU-13-1''
   \<and> serve ''MD5: deadbeef\<newline>SHA1: cafef00d\<newline>'' example_url
     = Inr (Some ''MD5: deadbeef\<newline>SHA1: cafef00d\<newline>'')
   \<and> plain_text_parser (Some ''MD5: deadbeef\<newline>SHA1: cafef00d\<newline>'')
     = Inr \<lparr>soup_text = ''MD5: deadbeef\<newline>SHA1: cafef00d\<newline>'', anchors = []\<rparr>
   \<and> map_of (scenarios (fst (record_scenario_metadata plain_text_parser
                              (serve ''MD5: deadbeef\<newline>SHA1: cafef00d\<newline>'')
                              example_dataset ''ctu13'' (Some example_url)))) ''CTU-13-1''
     = Some [(''GROUP'', PStr ''ctu13''), (''URL'', PStr example_url),
             (''_PAGE'', PStr ''MD5: deadbeef\<newline>SHA1: cafef00d\<newline>''),
             (''_SUCCESS'', PBool True),
             (''MD5'', PStr ''deadbeef''), (''SHA1'', PStr ''cafef00d'')]
   \<and> snd (snd (record_scenario_metadata plain_text_parser
                  (serve ''MD5: deadbeef\<newline>SHA1: cafef00d\<newline>'')
                  example_dataset ''ctu13'' (Some example_url))) = None"
proof -
  have name: "scenario_name example_url = Inr ''CTU-13-1''" by code_simp
  have page: "serve ''MD5: deadbeef\<newline>SHA1: cafef00d\<newline>'' example_url
                = Inr (Some ''MD5: deadbeef\<newline>SHA1: cafef00d\<newline>'')"
    by (simp add: serve_def)
  have soup: "plain_text_parser (Some ''MD5: deadbeef\<newline>SHA1: cafef00d\<newline>'')
                = Inr \<lparr>soup_text = ''MD5: deadbeef\<newline>SHA1: cafef00d\<newline>'', anchors = []\<rparr>"
    by (simp add: plain_text_parser_def)
  have fields: "parsed_record plain_text_parser
                  (serve ''MD5: deadbeef\<newline>SHA1: cafef00d\<newline>'') (columns example_dataset)
                  example_url
                  \<lparr>soup_text = ''MD5: deadbeef\<newline>SHA1: cafef00d\<newline>'', anchors = []\<rparr>
                  (fetched_record example_dataset ''CTU-13-1'' ''ctu13'' example_url
                     (Some ''MD5: deadbeef\<newline>SHA1: cafef00d\<newline>''))
                = [(''GROUP'', PStr ''ctu13''), (''URL'', PStr example_url),
                   (''_PAGE'', PStr ''MD5: deadbeef\<newline>SHA1: cafef00d\<newline>''),
                   (''_SUCCESS'', PBool True),
                   (''MD5'', PStr ''deadbeef''), (''SHA1'', PStr ''cafef00d'')]"
    by code_simp
  have raised: "snd (labelled_lines (columns example_dataset)
                  (netflow_fields plain_text_parser
                     (serve ''MD5: deadbeef\<newline>SHA1: cafef00d\<newline>'') example_url)
                  (splitlines (soup_text
                     \<lparr>soup_text = ''MD5: deadbeef\<newline>SHA1: cafef00d\<newline>'', anchors = []\<rparr>))
                  (fetched_record example_dataset ''CTU-13-1'' ''ctu13'' example_url
                     (Some ''MD5: deadbeef\<newline>SHA1: cafef00d\<newline>''))) = None"
    by code_simp
  from page_lines_labelled
         [where url = example_url and name = "''CTU-13-1''"
            and net = "serve ''MD5: deadbeef\<newline>SHA1: cafef00d\<newline>''"
            and page = "Some ''MD5: deadbeef\<newline>SHA1: cafef00d\<newline>''"
            and parser = plain_text_parser
            and page_soup = "\<lparr>soup_text = ''MD5: deadbeef\<newline>SHA1: cafef00d\<newline>'', anchors = []\<rparr>"
            and self = example_dataset and grp = "''ctu13''",
          OF name page soup]
       name page soup fields raised
  show ?thesis by simp
qed

lemma scan_label_keeps:
  "key \<notin> set cols \<Longrightarrow> map_of (scan_label cols line sc) key = map_of sc key"
  by (auto simp: scan_label_def update_conv' Let_def split: list.splits option.splits)

lemma scan_binetflow_keeps:
  "scan_binetflow items sc = Inr sc' \<Longrightarrow> key \<noteq> ''BINETFLOW'' \<Longrightarrow>
   map_of sc' key = map_of sc key"
  by (induction items sc rule: scan_binetflow.induct)
     (auto simp: update_conv' split: sum.splits if_splits)

lemma scan_line_keeps:
  assumes "scan_line parser net cols url line t = (t', r)"
    and "key \<notin> set cols" and "key \<noteq> ''BINETFLOW''"
  shows "map_of (scenario t') key = map_of (scenario t) key"
  using assms
  by (auto simp: scan_line_def fetch_def Let_def scan_label_keeps
           dest: scan_binetflow_keeps split: if_splits sum.splits)

lemma scan_lines_keeps:
  assumes "scan_lines parser net cols url ls t = (t', r)"
    and "key \<notin> set cols" and "key \<noteq> ''BINETFLOW''"
  shows "map_of (scenario t') key = map_of (scenario t) key"
  using assms
proof (induction ls arbitrary: t)
  case Nil
  then show ?case by simp
next
  case (Cons line ls)
  obtain t1 r1 where step: "scan_line parser net cols url line t = (t1, r1)"
    by (cases "scan_line parser net cols url line t")
  from step Cons.prems(2,3) have keep: "map_of (scenario t1) key = map_of (scenario t) key"
    by (rule scan_line_keeps)
  show ?case
  proof (cases r1)
    case None
    with step Cons.prems(1) have "scan_lines parser net cols url ls t1 = (t', r)" by simp
    from Cons.IH [OF this Cons.prems(2,3)] keep show ?thesis by simp
  next
    case (Some e)
    with step Cons.prems(1) have "t' = t1" by simp
    with keep show ?thesis by simp
  qed
qed

lemma scan_links_keeps:
  "key \<notin> set cols \<Longrightarrow> map_of (scan_links cols items sc) key = map_of sc key"
  by (induction cols items sc rule: scan_links.induct)
     (auto simp: update_conv' Let_def split: option.splits)

lemma page_success_failed:
  "page = None \<or> page = Some [] \<or> (\<exists>p. page = Some p \<and> str_in ''Not Found'' p)
   \<Longrightarrow> \<not> page_success page"
  by (auto simp: page_success_def)

text \<open>
  The flag of a failed page is in the record after the call, whatever the parse of the
  page records or raises, and the query skips the record.
\<close>

lemma failed_flag_recorded:
  assumes name: "scenario_name url = Inr name"
    and page: "net url = Inr page"
    and bad: "page = None \<or> page = Some [] \<or> (\<exists>p. page = Some p \<and> str_in ''Not Found'' p)"
    and col: "''_SUCCESS'' \<notin> set (columns self)"
  shows "\<exists>a. map_of (scenarios (fst (record_scenario_metadata parser net self grp (Some url)))) name
                = Some a
             \<and> map_of a ''_SUCCESS'' = Some (PBool False)
             \<and> metadata_row cols gs name_includes has_hash name a = Inr None"
proof -
  define sc0 where "sc0 = (case map_of (scenarios self) name of None \<Rightarrow> [] | Some d \<Rightarrow> d)"
  define sc1 where "sc1 = AList.update ''URL'' (PStr url) (AList.update ''GROUP'' (PStr grp) sc0)"
  define sc2 where "sc2 = AList.update ''_SUCCESS'' (PBool (page_success page))
                            (AList.update ''_PAGE'' (page_value page) sc1)"
  have flag: "map_of sc2 ''_SUCCESS'' = Some (PBool False)"
    using page_success_failed [OF bad] by (simp add: sc2_def update_conv')
  have skip: "metadata_row cols gs name_includes has_hash name a = Inr None"
    if "map_of a ''_SUCCESS'' = Some (PBool False)" for a
    using that by (simp add: metadata_row_def failed_def dict_has_def dict_get_def truthy_def)
  have stored: "map_of (scenarios (store_scenario self name a)) name = Some a" for a
    by (simp add: store_scenario_def update_conv')
  have fs: "fetch_scenario net url = (Inr page, [Acquire, Request url, Response url, Release])"
    using page by (simp add: fetch_scenario_def fetch_def)
  show ?thesis
  proof (cases "parser page")
    case (Inl e)
    then have "fst (record_scenario_metadata parser net self grp (Some url))
                 = store_scenario self name sc2"
      using name fs by (simp add: record_scenario_metadata_def Let_def sc0_def sc1_def sc2_def)
    with stored flag skip show ?thesis by simp
  next
    case (Inr page_soup)
    obtain t r where lines: "scan_lines parser net (columns self) url
                               (splitlines (soup_text page_soup))
                               \<lparr>scenario = sc2, trace = [Acquire, Request url, Response url, Release]\<rparr>
                             = (t, r)"
      by (cases "scan_lines parser net (columns self) url (splitlines (soup_text page_soup))
                   \<lparr>scenario = sc2, trace = [Acquire, Request url, Response url, Release]\<rparr>")
    have kept: "map_of (scenario t) ''_SUCCESS'' = Some (PBool False)"
      using scan_lines_keeps [OF lines col] flag by simp
    show ?thesis
    proof (cases r)
      case None
      then have "fst (record_scenario_metadata parser net self grp (Some url))
                   = store_scenario self name (scan_links (columns self) (anchors page_soup) (scenario t))"
        using name fs Inr lines
        by (simp add: record_scenario_metadata_def Let_def sc0_def sc1_def sc2_def)
      moreover have "map_of (scan_links (columns self) (anchors page_soup) (scenario t)) ''_SUCCESS''
                       = Some (PBool False)"
        using kept col by (simp add: scan_links_keeps)
      ultimately show ?thesis using stored skip by simp
    next
      case (Some e)
      then have "fst (record_scenario_metadata parser net self grp (Some url))
                   = store_scenario self name (scenario t)"
        using name fs Inr lines
        by (simp add: record_scenario_metadata_def Let_def sc0_def sc1_def sc2_def)
      with kept stored skip show ?thesis by simp
    qed
  qed
qed

lemma parsed_record_blank:
  "splitlines (soup_text page_soup) = [] \<Longrightarrow> anchors page_soup = [] \<Longrightarrow>
   parsed_record parser net cols url page_soup sc = sc"
  by (simp add: parsed_record_def)

text \<open>
  Claim C1, as stated, fails: a page that contains \<^verbatim>\<open>Not Found\<close> is parsed like any
  other. For the page \<^verbatim>\<open>"Not Found\nMD5: deadbeef"\<close> the record has \<^verbatim>\<open>_SUCCESS\<close> false
  and the field \<^verbatim>\<open>MD5\<close> populated.
\<close>

theorem not_found_page_parsed:
  "scenarios (fst (record_scenario_metadata plain_text_parser
                     (serve ''Not Found\<newline>MD5: deadbeef'') example_dataset ''ctu13''
                     (Some example_url)))
   = [(''CTU-13-1'',
       [(''GROUP'', PStr ''ctu13''), (''URL'', PStr example_url),
        (''_PAGE'', PStr ''Not Found\<newline>MD5: deadbeef''),
        (''_SUCCESS'', PBool False),
        (''MD5'', PStr ''deadbeef'')])]"
  by code_simp

text \<open>
  Claim C1, amended. For every scenario page whose fetched text is \<^verbatim>\<open>None\<close>, empty or
  contains \<^verbatim>\<open>Not Found\<close>, and with \<^verbatim>\<open>_SUCCESS\<close> not among the configured columns:
  \<^verbatim>\<open>record_scenario_metadata\<close> leaves in the store a record of the scenario whose
  \<^verbatim>\<open>_SUCCESS\<close> is false, and \<^verbatim>\<open>get_metadata\<close> skips that record under every filter.
  When the HTML parser raises on the page, or finds no line of text and no anchor in it,
  no further parsing populates the record: it is the record fetched, which differs from
  the record the store had for the scenario in \<^verbatim>\<open>GROUP\<close>, \<^verbatim>\<open>URL\<close>, \<^verbatim>\<open>_PAGE\<close> and
  \<^verbatim>\<open>_SUCCESS\<close> only. Otherwise the page is parsed as any other page is: the record is
  the fetched record after the scan of the lines and the scan of the links.
\<close>

theorem failed_page_recorded:
  assumes name: "scenario_name url = Inr name"
    and page: "net url = Inr page"
    and bad: "page = None \<or> page = Some [] \<or> (\<exists>p. page = Some p \<and> str_in ''Not Found'' p)"
    and col: "''_SUCCESS'' \<notin> set (columns self)"
  shows "(\<exists>a. map_of (scenarios (fst (record_scenario_metadata parser net self grp (Some url)))) name
                = Some a
             \<and> map_of a ''_SUCCESS'' = Some (PBool False)
             \<and> metadata_row cols gs name_includes has_hash name a = Inr None)
       \<and> map_of (scenarios (fst (record_scenario_metadata parser net self grp (Some url)))) name
         = Some (case parser page of
                   Inl e \<Rightarrow> fetched_record self name grp url page
                 | Inr page_soup \<Rightarrow>
                     parsed_record parser net (columns self) url page_soup
                       (fetched_record self name grp url page))
       \<and> (\<forall>page_soup. parser page = Inr page_soup \<and> splitlines (soup_text page_soup) = []
                         \<and> anchors page_soup = [] \<longrightarrow>
             map_of (scenarios (fst (record_scenario_metadata parser net self grp (Some url)))) name
             = Some (fetched_record self name grp url page))
       \<and> map_of (fetched_record self name grp url page) ''_SUCCESS'' = Some (PBool False)"
proof -
  note rec = record_of_page(1)
                [where url = url and name = name and net = net and page = page
                   and parser = parser and self = self and grp = grp, OF name page]
  have blank: "map_of (scenarios (fst (record_scenario_metadata parser net self grp (Some url)))) name
               = Some (fetched_record self name grp url page)"
    if "parser page = Inr page_soup" "splitlines (soup_text page_soup) = []"
       "anchors page_soup = []" for page_soup
    using rec that by (simp add: parsed_record_blank)
  have flag: "map_of (fetched_record self name grp url page) ''_SUCCESS'' = Some (PBool False)"
    using page_success_failed [OF bad] by (simp add: fetched_record_def update_conv')
  from failed_flag_recorded
         [where url = url and name = name and net = net and page = page and self = self
            and parser = parser and grp = grp and cols = cols and gs = gs
            and name_includes = name_includes and has_hash = has_hash,
          OF name page bad col]
       rec blank flag
  show ?thesis by blast
qed

theorem failed_page_recorded_witness:
  "scenario_name example_url = Inr ''CTU-13-1''
   \<and> ''_SUCCESS'' \<notin> set (columns example_dataset)
   \<and> serve [] example_url = Inr (Some [])
   \<and> plain_text_parser (Some []) = Inr \<lparr>soup_text = [], anchors = []\<rparr>
   \<and> splitlines (soup_text \<lparr>soup_text = [], anchors = []\<rparr>) = []
   \<and> map_of (scenarios (fst (record_scenario_metadata plain_text_parser (serve [])
                              example_dataset ''ctu13'' (Some example_url)))) ''CTU-13-1''
     = Some [(''GROUP'', PStr ''ctu13''), (''URL'', PStr example_url),
             (''_PAGE'', PStr []), (''_SUCCESS'', PBool False)]
   \<and> serve_none example_url = Inr None
   \<and> plain_text_parser None = Inl TypeError
   \<and> map_of (scenarios (fst (record_scenario_metadata plain_text_parser serve_none
                              example_dataset ''ctu13'' (Some example_url)))) ''CTU-13-1''
     = Some [(''GROUP'', PStr ''ctu13''), (''URL'', PStr example_url),
             (''_PAGE'', PNone), (''_SUCCESS'', PBool False)]
   \<and> metadata_row COLUMNS (Some [''ctu13'']) None None ''CTU-13-1''
        [(''GROUP'', PStr ''ctu13''), (''URL'', PStr example_url),
         (''_PAGE'', PNone), (''_SUCCESS'', PBool False)] = Inr None"
proof -
  have name: "scenario_name example_url = Inr ''CTU-13-1''" by code_simp
  have col: "''_SUCCESS'' \<notin> set (columns example_dataset)"
    by (simp add: example_dataset_def COLUMNS_def)
  have empty_page: "serve [] example_url = Inr (Some [])" by (simp add: serve_def)
  have empty_bad: "Some [] = None \<or> Some [] = Some []
                   \<or> (\<exists>p. Some [] = Some p \<and> str_in ''Not Found'' p)"
    by simp
  have empty_soup: "plain_text_parser (Some []) = Inr \<lparr>soup_text = [], anchors = []\<rparr>"
    by (simp add: plain_text_parser_def)
  have no_lines: "splitlines (soup_text \<lparr>soup_text = [], anchors = []\<rparr>) = []"
    by (simp add: splitlines_def)
  have empty_fetched: "fetched_record example_dataset ''CTU-13-1'' ''ctu13'' example_url (Some [])
                       = [(''GROUP'', PStr ''ctu13''), (''URL'', PStr example_url),
                          (''_PAGE'', PStr []), (''_SUCCESS'', PBool False)]"
    by code_simp
  have none_page: "serve_none example_url = Inr None" by (simp add: serve_none_def)
  have none_bad: "(None :: string option) = None \<or> None = Some []
                  \<or> (\<exists>p. None = Some p \<and> str_in ''Not Found'' p)"
    by simp
  have none_raises: "plain_text_parser None = Inl TypeError"
    by (simp add: plain_text_parser_def)
  have none_fetched: "fetched_record example_dataset ''CTU-13-1'' ''ctu13'' example_url None
                      = [(''GROUP'', PStr ''ctu13''), (''URL'', PStr example_url),
                         (''_PAGE'', PNone), (''_SUCCESS'', PBool False)]"
    by code_simp
  note empty = failed_page_recorded
         [where url = example_url and name = "''CTU-13-1''" and net = "serve []"
            and page = "Some []" and self = example_dataset
            and parser = plain_text_parser and grp = "''ctu13''" and cols = COLUMNS
            and gs = "Some [''ctu13'']" and name_includes = None and has_hash = None,
          OF name empty_page empty_bad col]
  note none = failed_page_recorded
         [where url = example_url and name = "''CTU-13-1''" and net = serve_none
            and page = None and self = example_dataset
            and parser = plain_text_parser and grp = "''ctu13''" and cols = COLUMNS
            and gs = "Some [''ctu13'']" and name_includes = None and has_hash = None,
          OF name none_page none_bad col]
  from empty [THEN conjunct2, THEN conjunct2, THEN conjunct1, rule_format,
              of "\<lparr>soup_text = [], anchors = []\<rparr>"]
       empty_soup no_lines empty_fetched
  have r1: "map_of (scenarios (fst (record_scenario_metadata plain_text_parser (serve [])
                                     example_dataset ''ctu13'' (Some example_url)))) ''CTU-13-1''
            = Some [(''GROUP'', PStr ''ctu13''), (''URL'', PStr example_url),
                    (''_PAGE'', PStr []), (''_SUCCESS'', PBool False)]"
    by simp
  from none [THEN conjunct2, THEN conjunct1] none_raises none_fetched
  have r2: "map_of (scenarios (fst (record_scenario_metadata plain_text_parser serve_none
                                     example_dataset ''ctu13'' (Some example_url)))) ''CTU-13-1''
            = Some [(''GROUP'', PStr ''ctu13''), (''URL'', PStr example_url),
                    (''_PAGE'', PNone), (''_SUCCESS'', PBool False)]"
    by simp
  from none [THEN conjunct1] r2
  have r3: "metadata_row COLUMNS (Some [''ctu13'']) None None ''CTU-13-1''
              [(''GROUP'', PStr ''ctu13''), (''URL'', PStr example_url),
               (''_PAGE'', PNone), (''_SUCCESS'', PBool False)] = Inr None"
    by auto
  from name col empty_page empty_soup no_lines r1 none_page none_raises r2 r3
  show ?thesis by simp
qed

subsection \<open>The semaphore\<close>

text \<open>
  Claim C2. The claim holds that every fetch, the one of the sub-page included, takes a
  slot of the semaphore, so that no more than \<^verbatim>\<open>semaphore_limit\<close> fetches are in flight.
  The code fetches the sub-page with \<^verbatim>\<open>self.fetch\<close>, outside \<^verbatim>\<open>async with self.sem\<close>.
  With a semaphore of one slot and two scenarios whose pages name the netflow directory,
  the first task fetches its page, releases the slot and requests its sub-page; the second
  task then takes the slot and requests its page: two requests are in flight.
\<close>

theorem subpage_fetch_not_gated:
  "semaphore_limit single_slot = 1
   \<and> fst (snd (record_scenario_metadata plain_text_parser (serve NETFLOW_DATA_DIR) single_slot
                  ''ctu13'' (Some example_url)))
     = [Acquire, Request example_url, Response example_url, Release,
        Request (example_url @ NETFLOW_DATA_DIR), Response (example_url @ NETFLOW_DATA_DIR)]
   \<and> run (nat (semaphore_limit single_slot)) [0, 0, 0, 0, 0, 1, 1]
        [fst (snd (record_scenario_metadata plain_text_parser (serve NETFLOW_DATA_DIR) single_slot
                     ''ctu13'' (Some example_url))),
         fst (snd (record_scenario_metadata plain_text_parser (serve NETFLOW_DATA_DIR) single_slot
                     ''ctu13'' (Some ''https://mcfp.felk.cvut.cz/publicDatasets/CTU-13-2/'')))]
        idle
     = Some \<lparr>held = 1, in_flight = 2, peak = 2\<rparr>"
  by code_simp

subsection \<open>The cache\<close>

text \<open>
  Claim C5. The claim holds that \<^verbatim>\<open>cache_expired\<close> deletes a cache file of zero bytes
  and reports it expired, whatever its age, as the docstring of the function says of a file
  that does not exist. The code deletes the file and goes on to compare the age it has read:
  for an empty file written at the time of the call it returns false, the file being gone.
  \<^verbatim>\<open>load_ctu_metadata\<close> then takes the branch that reads the cache, and \<^verbatim>\<open>read_cache\<close>
  finds no file and loads nothing.
\<close>

theorem empty_fresh_cache_not_expired:
  "st_size \<lparr>content = [], st_mtime = 1000\<rparr> = 0
   \<and> cache_expired example_dataset None empty_cache 1000 = (False, Map.empty)
   \<and> load_reads_cache example_dataset empty_cache 1000 = (True, Map.empty)
   \<and> read_cache harvested_codec example_dataset Map.empty 1000
     = (Inr False, example_dataset, Map.empty)"
  by (simp add: cache_expired_def load_reads_cache_def read_cache_def empty_cache_def
                example_dataset_def st_size_def delete_cache_def CACHE_TIMEOUT_def)

text \<open>
  Claim C6. The claim holds that \<^verbatim>\<open>cache_expired()\<close> compares the age of the file with
  the timeout given to the constructor. The code stores that timeout in
  \<^verbatim>\<open>self.cache_timeout\<close> and never reads it: \<^verbatim>\<open>cache_expired\<close> compares with its own
  argument, which its callers leave at the default of seven days. For an object constructed
  with a timeout of 60 seconds and a cache file 3600 seconds old, \<^verbatim>\<open>cache_expired()\<close>
  returns false and \<^verbatim>\<open>load_ctu_metadata\<close> reads the cache.
\<close>

theorem configured_timeout_ignored:
  "cache_timeout one_minute = 60
   \<and> cache_expired one_minute None old_cache 3600 = (False, old_cache)
   \<and> load_reads_cache one_minute old_cache 3600 = (True, old_cache)"
  by (simp add: cache_expired_def load_reads_cache_def old_cache_def example_dataset_def
                one_minute_def st_size_def delete_cache_def CACHE_TIMEOUT_def)

lemma members_of_map:
  assumes "\<And>v. f (g v) = Some v"
  shows "members_of f (map (\<lambda>(k, v). (k, g v)) xs) = Some xs"
  by (induction xs) (auto simp: assms)

lemma pyval_round_trip: "pyval_of_json (json_of_pyval v) = Some v"
  by (cases v) (simp_all add: pyval_of_json_def json_of_pyval_def)

lemma attributes_round_trip: "attributes_of_json (json_of_attributes a) = Some a"
  by (simp add: attributes_of_json_def json_of_attributes_def members_of_map pyval_round_trip)

lemma store_round_trip: "store_of_json (json_of_store st) = Some st"
  by (simp add: store_of_json_def json_of_store_def members_of_map attributes_round_trip)

lemma columns_round_trip: "columns_of_json (JArr (map JStr cols)) = Some cols"
  by (induction cols) (auto simp: columns_of_json_def)

text \<open>
  Claim C7. Let \<^verbatim>\<open>write_cache\<close> write the cache of an object at time \<open>now\<close>, with a
  codec that writes a text for the object of the cache and reads the object back from it.
  Then \<^verbatim>\<open>read_cache\<close>, called on the same path no later than the default timeout after
  \<open>now\<close>, returns true and leaves the reading object with the scenarios (the same keys
  and the same values of every field, in the same order) and the columns of the written one.
\<close>

theorem write_then_read_cache:
  assumes codec: "loads codec (dumps codec (cache_object self)) = Inr (cache_object self)"
    and written: "dumps codec (cache_object self) \<noteq> []"
    and fresh: "now' - now \<le> CACHE_TIMEOUT"
    and same: "cache_file session = cache_file self"
  shows "read_cache codec session (snd (write_cache codec self fs now)) now'
         = (Inr True, session\<lparr>scenarios := scenarios self, columns := columns self\<rparr>,
            snd (write_cache codec self fs now))"
  using assms
  by (simp add: read_cache_def write_cache_def cache_expired_def st_size_def Let_def
                cache_object_def json_getitem_def getitem_def store_round_trip columns_round_trip)

theorem write_then_read_cache_witness:
  "loads harvested_codec (dumps harvested_codec (cache_object harvested_dataset))
     = Inr (cache_object harvested_dataset)
   \<and> dumps harvested_codec (cache_object harvested_dataset) \<noteq> []
   \<and> (3600 :: real) - 0 \<le> CACHE_TIMEOUT
   \<and> cache_file example_dataset = cache_file harvested_dataset
   \<and> read_cache harvested_codec example_dataset
        (snd (write_cache harvested_codec harvested_dataset Map.empty 0)) 3600
     = (Inr True, harvested_dataset,
        snd (write_cache harvested_codec harvested_dataset Map.empty 0))"
proof -
  have codec: "loads harvested_codec (dumps harvested_codec (cache_object harvested_dataset))
                 = Inr (cache_object harvested_dataset)"
    by (simp add: harvested_codec_def)
  have written: "dumps harvested_codec (cache_object harvested_dataset) \<noteq> []"
    by (simp add: harvested_codec_def harvested_text_def)
  have fresh: "(3600 :: real) - 0 \<le> CACHE_TIMEOUT"
    by (simp add: CACHE_TIMEOUT_def)
  have same: "cache_file example_dataset = cache_file harvested_dataset"
    by (simp add: harvested_dataset_def)
  have after: "example_dataset\<lparr>scenarios := scenarios harvested_dataset,
                               columns := columns harvested_dataset\<rparr> = harvested_dataset"
    by (simp add: harvested_dataset_def example_dataset_def)
  from write_then_read_cache [OF codec written fresh same, of Map.empty]
       codec written fresh same after
  show ?thesis by simp
qed

end
